theory Spec2Isabelle
  imports Main "HOL-Library.Word" "HOL-Library.AList"
begin

section \<open>The document handler \<open>manageDoc/index.js\<close>\<close>

text \<open>
  The handler routes a request envelope to one of three flows (upload, list, download)
  that work on one bucket of an object store. The model follows the source function by
  function. What the source takes from outside (the multipart parser, the Buffer
  conversions, the clock and the object store) is kept apart from the handler's own code:
  the parser, the conversions and the clock are fields of an environment record, the
  store is an explicit bucket that every flow takes and returns.
\<close>

subsection \<open>Values\<close>

type_synonym byte = "8 word"
type_synonym buffer = "byte list"

text \<open>A JavaScript object with string values: its keys in insertion order.\<close>

type_synonym js_object = "(string \<times> string) list"

text \<open>An exception value: \<open>error.name\<close> and \<open>error.message\<close>.\<close>

datatype js_error = JsError (err_name: string) (err_message: string)

text \<open>
  The argument of \<open>JSON.stringify\<close>. \<open>JBase64 bs\<close> stands for the string
  \<open>bs.toString('base64')\<close>, which determines \<open>bs\<close>; \<open>JDate t\<close> for the rendering
  of the date \<open>t\<close>.
\<close>

datatype json =
    JString string
  | JNumber nat
  | JBool bool
  | JDate nat
  | JBase64 buffer
  | JArray "json list"
  | JObject "(string \<times> json) list"

text \<open>
  A response body is either \<open>JSON.stringify\<close> of a value or the base64 text of a buffer.
\<close>

datatype payload = Json json | Base64 buffer

text \<open>
  The response object. A response that the source builds without \<open>isBase64Encoded\<close>
  has the field \<open>False\<close>.
\<close>

record response =
  statusCode :: nat
  res_headers :: js_object
  res_body :: payload
  res_isBase64Encoded :: bool

text \<open>
  The request envelope. \<open>queryStringParameters\<close> and \<open>headers\<close> are \<open>None\<close> when
  the envelope carries \<open>null\<close> for them (a request with no query string; an invocation
  with no headers object). \<open>body\<close> is a string.
\<close>

record event =
  httpMethod :: string
  queryStringParameters :: "js_object option"
  headers :: "js_object option"
  body :: string
  isBase64Encoded :: bool

subsection \<open>JavaScript string operations\<close>

text \<open>
  \<open>toLowerCase\<close> on the letters \<open>A\<close> to \<open>Z\<close>; every other character is kept. Its
  results are only compared with the ASCII strings of the allow-list and of the
  \<open>switch\<close>, whose letters no character outside \<open>A\<close> to \<open>Z\<close> is lowered to, so the
  comparisons come out as in the source.
\<close>

definition lower_char :: "char \<Rightarrow> char" where
  "lower_char c =
     (case map_of (zip ''ABCDEFGHIJKLMNOPQRSTUVWXYZ'' ''abcdefghijklmnopqrstuvwxyz'') c of
        None \<Rightarrow> c
      | Some l \<Rightarrow> l)"

definition toLowerCase :: "string \<Rightarrow> string" where
  "toLowerCase s = map lower_char s"

text \<open>
  \<open>s.split(c)\<close> for a one-character separator: the pieces between the separators, never
  an empty array. \<open>pop()\<close> of the result is its last piece.
\<close>

fun split_on :: "char \<Rightarrow> string \<Rightarrow> string list" where
  "split_on c [] = [[]]"
| "split_on c (x # xs) =
     (if x = c then [] # split_on c xs
      else (case split_on c xs of
              [] \<Rightarrow> [[x]]
            | y # ys \<Rightarrow> (x # y) # ys))"

definition pop :: "string list \<Rightarrow> string" where
  "pop ps = last ps"

text \<open>\<open>s.includes(t)\<close>: \<open>t\<close> occurs in \<open>s\<close> as a contiguous substring.\<close>

fun includes_str :: "string \<Rightarrow> string \<Rightarrow> bool" where
  "includes_str [] t = (t = [])"
| "includes_str (c # cs) t = (take (length t) (c # cs) = t \<or> includes_str cs t)"

text \<open>
  \<open>a || b\<close> on values that are a string or \<open>undefined\<close>: \<open>a\<close> when it is a non-empty
  string, \<open>b\<close> otherwise.
\<close>

definition js_or :: "string option \<Rightarrow> string option \<Rightarrow> string option" where
  "js_or a b = (case a of None \<Rightarrow> b | Some s \<Rightarrow> if s = [] then b else Some s)"

definition or_default :: "string option \<Rightarrow> string \<Rightarrow> string" where
  "or_default a d = (case a of None \<Rightarrow> d | Some s \<Rightarrow> if s = [] then d else s)"

text \<open>A number in a template literal: its decimal digits.\<close>

fun string_of_nat :: "nat \<Rightarrow> string" where
  "string_of_nat n =
     (if n < 10 then [''0123456789'' ! n]
      else string_of_nat (n div 10) @ [''0123456789'' ! (n mod 10)])"

declare string_of_nat.simps [simp del]

subsection \<open>Constants of the module\<close>

definition ALLOWED_EXTENSIONS :: "string list" where
  "ALLOWED_EXTENSIONS = [''.docx'', ''.pdf'', ''.jpg'', ''.png'', ''.jpeg'', ''.txt'', ''.xlsx'']"

definition getCorsHeaders :: js_object where
  "getCorsHeaders =
     [(''Access-Control-Allow-Origin'', ''*''),
      (''Access-Control-Allow-Methods'', ''GET, POST, PUT, DELETE, OPTIONS''),
      (''Access-Control-Allow-Headers'',
         ''Content-Type,X-Amz-Date,Authorization,X-Api-Key,X-Requested-With,Accept''),
      (''Access-Control-Allow-Credentials'', ''true''),
      (''Access-Control-Max-Age'', ''86400'')]"

subsection \<open>The environment: parser, buffers, clock\<close>

text \<open>
  What the multipart parser emits while the body is written to it and ended, in order.
  A file part is delivered with its field name, filename and declared type, and its
  stream is drained (all \<open>data\<close> chunks, then \<open>end\<close>) before the next part starts, so
  one event carries the part with its chunks. \<open>Parse_error\<close> is the parser's \<open>error\<close>
  event; an exception thrown by the parser's constructor or by \<open>write\<close> is the same
  event, since the \<open>catch\<close> block rejects with the exception as the \<open>error\<close> handler
  does.
\<close>

datatype bb_event =
    File_part string string string "buffer list"
  | Field_part string string
  | Finish
  | Parse_error js_error

text \<open>
  \<open>busboy ct buf\<close> is the event sequence of a parser built for the content type \<open>ct\<close>
  on the bytes \<open>buf\<close>; \<open>date_now\<close> is the reading of \<open>Date.now()\<close>; \<open>s3_fault\<close> is
  the failure, if any, of this invocation's store call for reasons outside the bucket's
  contents; \<open>s3_time\<close> is the store's clock; \<open>s3_metadata_key\<close> is the spelling
  under which the store keeps, and later returns, the name of a user metadata entry;
  \<open>null_read\<close> is the \<open>TypeError\<close> that the runtime throws when \<open>content-type\<close>
  is read of \<open>event.headers\<close> and that is \<open>null\<close>.
\<close>

record env =
  busboy :: "string \<Rightarrow> buffer \<Rightarrow> bb_event list"
  buffer_from_base64 :: "string \<Rightarrow> buffer"
  buffer_from_utf8 :: "string \<Rightarrow> buffer"
  date_now :: nat
  s3_fault :: "js_error option"
  s3_time :: nat
  s3_metadata_key :: "string \<Rightarrow> string"
  null_read :: js_error

subsection \<open>The object store\<close>

text \<open>
  One bucket: keys with their objects. A put replaces the object under the key; the
  names of its user metadata are kept in the store's spelling (the service the source
  talks to keeps them in lower case, since they travel as header names), the values as
  they are. A get of a missing key fails with \<open>NoSuchKey\<close>. A listing returns at most
  one page of 1000 keys, and no \<open>Contents\<close> at all when no key matches.
\<close>

record s3_object =
  obj_Body :: buffer
  obj_ContentType :: "string option"
  obj_Metadata :: "js_object option"
  obj_LastModified :: nat

type_synonym bucket = "(string \<times> s3_object) list"

definition s3_PutObject ::
  "env \<Rightarrow> string \<Rightarrow> buffer \<Rightarrow> string \<Rightarrow> js_object \<Rightarrow> bucket \<Rightarrow> js_error + bucket" where
  "s3_PutObject e key bytes contentType metadata b =
     (case s3_fault e of
        Some err \<Rightarrow> Inl err
      | None \<Rightarrow>
          Inr (AList.update key
                 \<lparr>obj_Body = bytes,
                  obj_ContentType = Some contentType,
                  obj_Metadata = Some (map (\<lambda>(k, v). (s3_metadata_key e k, v)) metadata),
                  obj_LastModified = s3_time e\<rparr> b))"

definition s3_GetObject :: "env \<Rightarrow> string \<Rightarrow> bucket \<Rightarrow> js_error + s3_object" where
  "s3_GetObject e key b =
     (case s3_fault e of
        Some err \<Rightarrow> Inl err
      | None \<Rightarrow>
          (case map_of b key of
             None \<Rightarrow> Inl (JsError ''NoSuchKey'' ''The specified key does not exist.'')
           | Some obj \<Rightarrow> Inr obj))"

definition s3_ListObjectsV2 ::
  "env \<Rightarrow> string \<Rightarrow> bucket \<Rightarrow> js_error + (string \<times> nat \<times> nat) list option" where
  "s3_ListObjectsV2 e pfx b =
     (case s3_fault e of
        Some err \<Rightarrow> Inl err
      | None \<Rightarrow>
          (let items = take 1000 (filter (\<lambda>(k, obj). take (length pfx) k = pfx) b)
           in if items = [] then Inr None
              else Inr (Some (map (\<lambda>(k, obj). (k, length (obj_Body obj), obj_LastModified obj))
                                  items))))"

subsection \<open>\<open>extractFileFromForm\<close>\<close>

text \<open>The value the promise resolves with.\<close>

record extracted =
  fileData :: buffer
  fileName :: string
  fileType :: string
  documentValueCode :: string
  documentValueTypeCode :: string

text \<open>
  The variables the event handlers close over (\<open>fileData\<close>, \<open>fileName\<close>,
  \<open>fileType\<close>, \<open>formFields\<close>) and the promise: \<open>None\<close> while pending, and settled
  at most once.
\<close>

record form_state =
  cur_fileData :: "buffer option"
  cur_fileName :: string
  cur_fileType :: string
  fld_documentValueCode :: string
  fld_documentValueTypeCode :: string
  promise :: "(js_error + extracted) option"

definition init_state :: form_state where
  "init_state =
     \<lparr>cur_fileData = None, cur_fileName = [], cur_fileType = [],
      fld_documentValueCode = [], fld_documentValueTypeCode = [], promise = None\<rparr>"

definition settle :: "js_error + extracted \<Rightarrow> form_state \<Rightarrow> form_state" where
  "settle r st = (case promise st of None \<Rightarrow> st\<lparr>promise := Some r\<rparr> | Some _ \<Rightarrow> st)"

fun on_event :: "form_state \<Rightarrow> bb_event \<Rightarrow> form_state" where
  "on_event st (File_part fieldname filename mimetype chunks) =
     st\<lparr>cur_fileName := filename, cur_fileType := mimetype,
        cur_fileData := Some (concat chunks)\<rparr>"
| "on_event st (Field_part fieldname val) =
     (if fieldname = ''documentValueCode'' then st\<lparr>fld_documentValueCode := val\<rparr>
      else if fieldname = ''documentValueTypeCode'' then st\<lparr>fld_documentValueTypeCode := val\<rparr>
      else st)"
| "on_event st Finish =
     (case cur_fileData st of
        None \<Rightarrow> settle (Inl (JsError ''Error'' ''No file found in form data'')) st
      | Some d \<Rightarrow>
          settle (Inr \<lparr>fileData = d, fileName = cur_fileName st, fileType = cur_fileType st,
                       documentValueCode = fld_documentValueCode st,
                       documentValueTypeCode = fld_documentValueTypeCode st\<rparr>) st)"
| "on_event st (Parse_error err) = settle (Inl err) st"

text \<open>
  The result is the state of the promise after all events: \<open>None\<close> is a promise that
  stays pending, so that the \<open>await\<close> on it never returns.
\<close>

text \<open>The buffer that is written to the parser.\<close>

definition decodedBody :: "env \<Rightarrow> event \<Rightarrow> buffer" where
  "decodedBody e ev =
     (if isBase64Encoded ev then buffer_from_base64 e (body ev)
      else buffer_from_utf8 e (body ev))"

text \<open>
  The value of \<open>event.headers['content-type'] || event.headers['Content-Type']\<close>
  for an envelope with a headers object. Without one the read throws; that is a case of
  its own in \<open>extractFileFromForm\<close> and in \<open>handler\<close>, the two places that evaluate
  the expression, and the value here is \<open>None\<close>.
\<close>

definition contentType_header :: "event \<Rightarrow> string option" where
  "contentType_header ev =
     (case headers ev of
        None \<Rightarrow> None
      | Some h \<Rightarrow> js_or (map_of h ''content-type'') (map_of h ''Content-Type''))"

text \<open>
  The exception of the header read is thrown inside the \<open>try\<close> of the promise's
  executor, whose \<open>catch\<close> rejects with it.
\<close>

definition extractFileFromForm :: "env \<Rightarrow> event \<Rightarrow> (js_error + extracted) option" where
  "extractFileFromForm e ev =
     (case headers ev of
        None \<Rightarrow> Some (Inl (null_read e))
      | Some h \<Rightarrow>
          (case contentType_header ev of
             None \<Rightarrow> Some (Inl (JsError ''Error'' ''Not a multipart/form-data request''))
           | Some contentType \<Rightarrow>
               if \<not> includes_str contentType ''multipart/form-data''
               then Some (Inl (JsError ''Error'' ''Not a multipart/form-data request''))
               else promise (foldl on_event init_state
                               (busboy e contentType (decodedBody e ev)))))"

text \<open>\<open>event.queryStringParameters?.name\<close>.\<close>

definition query_param :: "event \<Rightarrow> string \<Rightarrow> string option" where
  "query_param ev name = (case queryStringParameters ev of None \<Rightarrow> None | Some q \<Rightarrow> map_of q name)"

subsection \<open>\<open>uploadFile\<close>\<close>

text \<open>\<open>xs.join(sep)\<close>.\<close>

fun join :: "string \<Rightarrow> string list \<Rightarrow> string" where
  "join sep [] = []"
| "join sep [x] = x"
| "join sep (x # y # ys) = x @ sep @ join sep (y # ys)"

text \<open>The extension that is checked: a dot and the lower-cased last piece of the name.\<close>

definition fileExtension_of :: "string \<Rightarrow> string" where
  "fileExtension_of name = ''.'' @ toLowerCase (pop (split_on CHR ''.'' name))"

text \<open>The \<open>switch\<close> on the extension; with no matching case the declared type stays.\<close>

definition contentType_of :: "string \<Rightarrow> string \<Rightarrow> string" where
  "contentType_of fileExtension declared =
     (let x = toLowerCase fileExtension in
      if x = ''.pdf'' then ''application/pdf''
      else if x = ''.docx''
        then ''application/vnd.openxmlformats-officedocument.wordprocessingml.document''
      else if x = ''.xlsx''
        then ''application/vnd.openxmlformats-officedocument.spreadsheetml.sheet''
      else if x = ''.txt'' then ''text/plain''
      else if x = ''.jpg'' \<or> x = ''.jpeg'' then ''image/jpeg''
      else if x = ''.png'' then ''image/png''
      else declared)"

definition key_of :: "nat \<Rightarrow> string \<Rightarrow> string" where
  "key_of now name = ''documents/'' @ string_of_nat now @ ''-'' @ name"

definition upload_failed :: "js_object \<Rightarrow> js_error \<Rightarrow> response" where
  "upload_failed hdrs err =
     \<lparr>statusCode = 500, res_headers = hdrs,
      res_body = Json (JObject [(''error'', JString ''Failed to upload file''),
                                (''details'', JString (err_message err))]),
      res_isBase64Encoded = False\<rparr>"

definition invalid_file_type :: "js_object \<Rightarrow> response" where
  "invalid_file_type hdrs =
     \<lparr>statusCode = 400, res_headers = hdrs,
      res_body = Json (JObject [(''error'', JString ''Invalid file type''),
                                (''message'', JString (''Supported file types: ''
                                                 @ join '', '' ALLOWED_EXTENSIONS))]),
      res_isBase64Encoded = False\<rparr>"

definition uploaded :: "js_object \<Rightarrow> string \<Rightarrow> extracted \<Rightarrow> response" where
  "uploaded hdrs key x =
     \<lparr>statusCode = 200, res_headers = hdrs,
      res_body = Json (JObject [(''message'', JString ''File uploaded successfully''),
                                (''key'', JString key),
                                (''fileName'', JString (fileName x)),
                                (''documentValueCode'', JString (documentValueCode x)),
                                (''documentValueTypeCode'', JString (documentValueTypeCode x))]),
      res_isBase64Encoded = False\<rparr>"

text \<open>
  The flow returns its response and the bucket after it; \<open>None\<close> when the promise of
  \<open>extractFileFromForm\<close> stays pending. Every exception inside the \<open>try\<close> block (a
  rejected extraction, a failed store call) ends in the single \<open>catch\<close>.
\<close>

definition uploadFile :: "env \<Rightarrow> event \<Rightarrow> js_object \<Rightarrow> bucket \<Rightarrow> (response \<times> bucket) option" where
  "uploadFile e ev hdrs b =
     (case extractFileFromForm e ev of
        None \<Rightarrow> None
      | Some (Inl err) \<Rightarrow> Some (upload_failed hdrs err, b)
      | Some (Inr x) \<Rightarrow>
          let fileExtension = fileExtension_of (fileName x) in
          if fileExtension \<notin> set ALLOWED_EXTENSIONS then Some (invalid_file_type hdrs, b)
          else
            let contentType = contentType_of fileExtension (fileType x);
                key = key_of (date_now e) (fileName x);
                metadata = [(''documentValueCode'', or_default (Some (documentValueCode x)) ''NA''),
                            (''documentValueTypeCode'',
                               or_default (Some (documentValueTypeCode x)) ''NA'')]
            in (case s3_PutObject e key (fileData x) contentType metadata b of
                  Inl err \<Rightarrow> Some (upload_failed hdrs err, b)
                | Inr b' \<Rightarrow> Some (uploaded hdrs key x, b')))"

subsection \<open>\<open>listDocuments\<close>\<close>

definition document_entry :: "string \<times> nat \<times> nat \<Rightarrow> json" where
  "document_entry item =
     (case item of (key, item_size, lastModified) \<Rightarrow>
        JObject [(''key'', JString key),
                 (''fileName'', JString (pop (split_on CHR ''/'' key))),
                 (''size'', JNumber item_size),
                 (''lastModified'', JDate lastModified)])"

text \<open>A failed store call is an exception that leaves the function (\<open>Inl\<close>).\<close>

definition listDocuments :: "env \<Rightarrow> js_object \<Rightarrow> bucket \<Rightarrow> js_error + response" where
  "listDocuments e hdrs b =
     (case s3_ListObjectsV2 e ''documents/'' b of
        Inl err \<Rightarrow> Inl err
      | Inr contents \<Rightarrow>
          let documents = (case contents of None \<Rightarrow> [] | Some items \<Rightarrow> map document_entry items)
          in Inr \<lparr>statusCode = 200, res_headers = hdrs,
                  res_body = Json (JObject [(''documents'', JArray documents)]),
                  res_isBase64Encoded = False\<rparr>)"

subsection \<open>\<open>downloadFile\<close>\<close>

definition key_required :: "js_object \<Rightarrow> response" where
  "key_required hdrs =
     \<lparr>statusCode = 400, res_headers = hdrs,
      res_body = Json (JObject [(''error'', JString ''Document key is required'')]),
      res_isBase64Encoded = False\<rparr>"

definition not_found :: "js_object \<Rightarrow> response" where
  "not_found hdrs =
     \<lparr>statusCode = 404, res_headers = hdrs,
      res_body = Json (JObject [(''error'', JString ''Document not found'')]),
      res_isBase64Encoded = False\<rparr>"

definition download_failed :: "js_object \<Rightarrow> js_error \<Rightarrow> response" where
  "download_failed hdrs err =
     \<lparr>statusCode = 500, res_headers = hdrs,
      res_body = Json (JObject [(''error'', JString ''Failed to download file''),
                                (''details'', JString (err_message err))]),
      res_isBase64Encoded = False\<rparr>"

text \<open>The JSON envelope of a \<open>text/plain\<close> object.\<close>

definition text_download :: "js_object \<Rightarrow> string \<Rightarrow> string \<Rightarrow> buffer \<Rightarrow> js_object \<Rightarrow> response" where
  "text_download hdrs name contentType fileBuffer metadata =
     \<lparr>statusCode = 200,
      res_headers = AList.update ''Content-Type'' ''application/json'' hdrs,
      res_body = Json (JObject [(''fileName'', JString name),
                                (''contentType'', JString contentType),
                                (''fileContent'', JBase64 fileBuffer),
                                (''isBase64Encoded'', JBool True),
                                (''metadata'', JObject (map (\<lambda>(k, v). (k, JString v)) metadata))]),
      res_isBase64Encoded = False\<rparr>"

text \<open>The attachment response of every other object.\<close>

definition binary_download :: "js_object \<Rightarrow> string \<Rightarrow> string \<Rightarrow> buffer \<Rightarrow> js_object \<Rightarrow> response" where
  "binary_download hdrs name contentType fileBuffer metadata =
     \<lparr>statusCode = 200,
      res_headers =
        AList.update ''X-Document-Value-Type-Code''
            (or_default (map_of metadata ''documentvaluetypecode'') ''NA'')
          (AList.update ''X-Document-Value-Code''
              (or_default (map_of metadata ''documentvaluecode'') ''NA'')
            (AList.update ''Content-Length'' (string_of_nat (length fileBuffer))
              (AList.update ''Content-Disposition''
                  (''attachment; filename='' @ [CHR 0x22] @ name @ [CHR 0x22])
                (AList.update ''Content-Type'' contentType hdrs)))),
      res_body = Base64 fileBuffer,
      res_isBase64Encoded = True\<rparr>"

definition downloadFile :: "env \<Rightarrow> event \<Rightarrow> js_object \<Rightarrow> bucket \<Rightarrow> response" where
  "downloadFile e ev hdrs b =
     (case query_param ev ''key'' of
        None \<Rightarrow> key_required hdrs
      | Some key \<Rightarrow>
          if key = [] then key_required hdrs
          else
            (case s3_GetObject e key b of
               Inl err \<Rightarrow>
                 if err_name err = ''NoSuchKey'' then not_found hdrs
                 else download_failed hdrs err
             | Inr obj \<Rightarrow>
                 let name = pop (split_on CHR ''/'' key);
                     contentType = or_default (obj_ContentType obj) ''application/octet-stream'';
                     metadata = (case obj_Metadata obj of None \<Rightarrow> [] | Some m \<Rightarrow> m);
                     fileBuffer = obj_Body obj
                 in if contentType = ''text/plain''
                    then text_download hdrs name contentType fileBuffer metadata
                    else binary_download hdrs name contentType fileBuffer metadata))"

subsection \<open>\<open>handler\<close>\<close>





section \<open>Notions of the specification\<close>

text \<open>
  The substring after the last occurrence of a separator: the whole string when the
  separator does not occur. This is the specification's "extension" of a filename (for
  the dot) and "final path segment" of a key (for the slash).
\<close>

definition after_last :: "char \<Rightarrow> string \<Rightarrow> string" where
  "after_last c s = rev (takeWhile (\<lambda>x. x \<noteq> c) (rev s))"

text \<open>The seven supported types, and the canonical MIME type of each.\<close>

definition supported_types :: "string list" where
  "supported_types = [''docx'', ''pdf'', ''jpg'', ''png'', ''jpeg'', ''txt'', ''xlsx'']"

definition canonical_mime :: "(string \<times> string) list" where
  "canonical_mime =
     [(''pdf'', ''application/pdf''),
      (''docx'', ''application/vnd.openxmlformats-officedocument.wordprocessingml.document''),
      (''xlsx'', ''application/vnd.openxmlformats-officedocument.spreadsheetml.sheet''),
      (''txt'', ''text/plain''),
      (''jpg'', ''image/jpeg''),
      (''jpeg'', ''image/jpeg''),
      (''png'', ''image/png'')]"

text \<open>The request declares a multipart form encoding in its content-type header.\<close>

definition declares_multipart :: "event \<Rightarrow> bool" where
  "declares_multipart ev =
     (case contentType_header ev of
        None \<Rightarrow> False
      | Some ct \<Rightarrow> includes_str ct ''multipart/form-data'')"

text \<open>Events that settle the promise, and events of text fields.\<close>

fun settles :: "bb_event \<Rightarrow> bool" where
  "settles Finish = True"
| "settles (Parse_error err) = True"
| "settles _ = False"

fun is_field :: "bb_event \<Rightarrow> bool" where
  "is_field (Field_part n v) = True"
| "is_field _ = False"

text \<open>The value a metadata field has after a round trip.\<close>

definition stored_value :: "string \<Rightarrow> string" where
  "stored_value v = (if v = [] then ''NA'' else v)"

section \<open>Example inputs\<close>

text \<open>
  An environment whose parser emits the given events, with a working store that keeps
  metadata names in lower case, and request envelopes for the three actions.
\<close>

definition example_env :: "bb_event list \<Rightarrow> env" where
  "example_env evs =
     \<lparr>busboy = (\<lambda>ct buf. evs),
      buffer_from_base64 = (\<lambda>s. []),
      buffer_from_utf8 = (\<lambda>s. map of_char s),
      date_now = 1700000000123,
      s3_fault = None,
      s3_time = 1700000000500,
      s3_metadata_key = toLowerCase,
      null_read = JsError ''TypeError'' ''Cannot read properties of null''\<rparr>"

definition upload_event :: event where
  "upload_event =
     \<lparr>httpMethod = ''POST'',
      queryStringParameters = Some [(''action'', ''uploadFile'')],
      headers = Some [(''content-type'', ''multipart/form-data; boundary=xyz'')],
      body = ''--xyz--'',
      isBase64Encoded = False\<rparr>"

definition json_event :: event where
  "json_event =
     \<lparr>httpMethod = ''POST'',
      queryStringParameters = Some [(''action'', ''uploadFile'')],
      headers = Some [(''Content-Type'', ''application/json'')],
      body = ''{}'',
      isBase64Encoded = False\<rparr>"

definition bare_event :: event where
  "bare_event =
     \<lparr>httpMethod = ''POST'',
      queryStringParameters = Some [(''action'', ''uploadFile'')],
      headers = Some [],
      body = [],
      isBase64Encoded = False\<rparr>"

definition download_event :: "string \<Rightarrow> event" where
  "download_event key =
     \<lparr>httpMethod = ''GET'',
      queryStringParameters = Some [(''action'', ''downloadFile''), (''key'', key)],
      headers = Some [],
      body = [],
      isBase64Encoded = False\<rparr>"

definition two_files :: "bb_event list" where
  "two_files =
     [File_part ''file'' ''first.pdf'' ''application/pdf'' [[1, 2], [3]],
      File_part ''file'' ''second.txt'' ''text/plain'' [[4]],
      Finish]"

definition report_pdf :: "bb_event list" where
  "report_pdf =
     [File_part ''file'' ''report.PDF'' ''application/octet-stream'' [[37, 80], [68, 70]],
      Field_part ''documentValueCode'' ''INV001'',
      Field_part ''comment'' ''ignored'',
      Finish]"

definition notes_txt :: "bb_event list" where
  "notes_txt =
     [Field_part ''documentValueTypeCode'' ''MEMO'',
      File_part ''file'' ''notes.txt'' ''application/octet-stream'' [[104, 105]],
      Finish]"




definition bare_upload_event :: event where
  "bare_upload_event =
     \<lparr>httpMethod = ''POST'',
      queryStringParameters = Some [(''action'', ''uploadFile'')],
      headers = None,
      body = [],
      isBase64Encoded = False\<rparr>"


text \<open>An object whose metadata names are spelled as the upload flow writes them.\<close>

definition camel_object :: s3_object where
  "camel_object =
     \<lparr>obj_Body = [37, 80, 68, 70],
      obj_ContentType = Some ''application/pdf'',
      obj_Metadata = Some [(''documentValueCode'', ''INV001''),
                           (''documentValueTypeCode'', ''MEMO'')],
      obj_LastModified = 1700000000500\<rparr>"

text \<open>What the upload of \<open>report_pdf\<close> and of \<open>notes_txt\<close> leaves in an empty bucket.\<close>

definition report_extracted :: extracted where
  "report_extracted =
     \<lparr>fileData = [37, 80, 68, 70], fileName = ''report.PDF'',
      fileType = ''application/octet-stream'',
      documentValueCode = ''INV001'', documentValueTypeCode = []\<rparr>"

definition report_bucket :: bucket where
  "report_bucket =
     [(''documents/1700000000123-report.PDF'',
       \<lparr>obj_Body = [37, 80, 68, 70],
        obj_ContentType = Some ''application/pdf'',
        obj_Metadata = Some [(''documentvaluecode'', ''INV001''),
                             (''documentvaluetypecode'', ''NA'')],
        obj_LastModified = 1700000000500\<rparr>)]"

definition notes_extracted :: extracted where
  "notes_extracted =
     \<lparr>fileData = [104, 105], fileName = ''notes.txt'',
      fileType = ''application/octet-stream'',
      documentValueCode = [], documentValueTypeCode = ''MEMO''\<rparr>"

definition notes_bucket :: bucket where
  "notes_bucket =
     [(''documents/1700000000123-notes.txt'',
       \<lparr>obj_Body = [104, 105],
        obj_ContentType = Some ''text/plain'',
        obj_Metadata = Some [(''documentvaluecode'', ''NA''),
                             (''documentvaluetypecode'', ''MEMO'')],
        obj_LastModified = 1700000000500\<rparr>)]"

definition setup_exe :: "bb_event list" where
  "setup_exe = [File_part ''file'' ''setup.EXE'' ''application/pdf'' [[77, 90]], Finish]"

definition dotless :: "string \<Rightarrow> bb_event list" where
  "dotless name = [File_part ''file'' name ''application/octet-stream'' [[1]], Finish]"

section \<open>Auxiliary facts\<close>

subsection \<open>Splitting\<close>

lemma split_on_not_Nil: "split_on c s \<noteq> []"
  by (induction s) (auto split: list.splits)

lemma split_on_absent: "c \<notin> set s \<Longrightarrow> split_on c s = [s]"
  by (induction s) auto

lemma split_on_present: "c \<in> set s \<Longrightarrow> \<exists>y z zs. split_on c s = y # z # zs"
proof (induction s)
  case Nil
  then show ?case by simp
next
  case (Cons x xs)
  show ?case
  proof (cases "x = c")
    case True
    obtain y ys where "split_on c xs = y # ys"
      using split_on_not_Nil [of c xs] by (cases "split_on c xs") auto
    then show ?thesis using True by simp
  next
    case False
    then have "c \<in> set xs" using Cons.prems by simp
    then obtain y' z zs where "split_on c xs = y' # z # zs" using Cons.IH by blast
    then show ?thesis using False by simp
  qed
qed

lemma takeWhile_rev_absent: "c \<notin> set s \<Longrightarrow> takeWhile (\<lambda>x. x \<noteq> c) (rev s) = rev s"
  by (subst takeWhile_eq_all_conv) auto

lemma after_last_absent: "c \<notin> set s \<Longrightarrow> after_last c s = s"
  by (simp add: after_last_def takeWhile_rev_absent)

lemma after_last_Cons_present: "c \<in> set xs \<Longrightarrow> after_last c (x # xs) = after_last c xs"
  by (simp add: after_last_def takeWhile_append1 [where x = c])

lemma after_last_Cons_sep: "after_last c (c # xs) = after_last c xs"
  by (cases "c \<in> set xs") (auto simp add: after_last_def takeWhile_append takeWhile_rev_absent)

lemma last_split_on: "last (split_on c s) = after_last c s"
proof (induction s)
  case Nil
  show ?case by (simp add: after_last_def)
next
  case (Cons x xs)
  show ?case
  proof (cases "x = c")
    case True
    then show ?thesis
      using Cons split_on_not_Nil [of c xs] by (simp add: after_last_Cons_sep)
  next
    case False
    show ?thesis
    proof (cases "c \<in> set xs")
      case True
      then obtain y z zs where "split_on c xs = y # z # zs"
        using split_on_present by blast
      then show ?thesis
        using Cons False True by (simp add: after_last_Cons_present)
    next
      case absent: False
      then have notin: "c \<notin> set (x # xs)" using False by simp
      have "split_on c (x # xs) = [x # xs]" using notin by (rule split_on_absent)
      moreover have "after_last c (x # xs) = x # xs" using notin by (rule after_last_absent)
      ultimately show ?thesis by simp
    qed
  qed
qed

lemma pop_split_on: "pop (split_on c s) = after_last c s"
  by (simp add: pop_def last_split_on)

subsection \<open>The promise of the decoder\<close>

lemma promise_on_event_Some: "promise st = Some r \<Longrightarrow> promise (on_event st ev) = Some r"
  by (cases ev) (auto simp: settle_def split: option.splits)

lemma promise_foldl_Some:
  "promise st = Some r \<Longrightarrow> promise (foldl on_event st evs) = Some r"
  by (induction evs arbitrary: st) (simp_all add: promise_on_event_Some)

lemma fields_keep:
  "\<forall>ev \<in> set evs. is_field ev \<Longrightarrow>
   cur_fileData (foldl on_event st evs) = cur_fileData st \<and>
   cur_fileName (foldl on_event st evs) = cur_fileName st \<and>
   cur_fileType (foldl on_event st evs) = cur_fileType st \<and>
   promise (foldl on_event st evs) = promise st"
proof (induction evs arbitrary: st)
  case Nil
  show ?case by simp
next
  case (Cons ev evs)
  then obtain n v where "ev = Field_part n v" by (cases ev) auto
  then show ?case using Cons by simp
qed

lemma pending_keep:
  "\<forall>ev \<in> set evs. \<not> settles ev \<Longrightarrow> promise (foldl on_event st evs) = promise st"
proof (induction evs arbitrary: st)
  case Nil
  show ?case by simp
next
  case (Cons ev evs)
  then have "promise (on_event st ev) = promise st" by (cases ev) auto
  then show ?case using Cons by simp
qed

subsection \<open>The content-type header\<close>

lemma contentType_header_Some:
  "contentType_header ev = Some ct \<Longrightarrow> headers ev \<noteq> None"
  by (cases "headers ev") (simp_all add: contentType_header_def)

lemma extract_with_content_type:
  assumes "contentType_header ev = Some ct" and "includes_str ct ''multipart/form-data''"
  shows "extractFileFromForm e ev
         = promise (foldl on_event init_state (busboy e ct (decodedBody e ev)))"
  using assms contentType_header_Some [OF assms(1)]
  by (auto simp add: extractFileFromForm_def)

subsection \<open>The extension check and the content type\<close>

lemma fileExtension_of_after_last:
  "fileExtension_of name = CHR ''.'' # toLowerCase (after_last CHR ''.'' name)"
  by (simp add: fileExtension_of_def pop_split_on)

lemma extension_allowed_iff:
  "fileExtension_of name \<in> set ALLOWED_EXTENSIONS
     \<longleftrightarrow> toLowerCase (after_last CHR ''.'' name) \<in> set supported_types"
  unfolding fileExtension_of_after_last ALLOWED_EXTENSIONS_def supported_types_def
  by simp

lemma contentType_of_values:
  "contentType_of ''.pdf'' d = ''application/pdf''"
  "contentType_of ''.docx'' d
     = ''application/vnd.openxmlformats-officedocument.wordprocessingml.document''"
  "contentType_of ''.xlsx'' d
     = ''application/vnd.openxmlformats-officedocument.spreadsheetml.sheet''"
  "contentType_of ''.txt'' d = ''text/plain''"
  "contentType_of ''.jpg'' d = ''image/jpeg''"
  "contentType_of ''.jpeg'' d = ''image/jpeg''"
  "contentType_of ''.png'' d = ''image/png''"
  by (simp_all add: contentType_of_def toLowerCase_def lower_char_def)

lemma contentType_canonical:
  assumes "(toLowerCase (after_last CHR ''.'' name), mime) \<in> set canonical_mime"
  shows "fileExtension_of name \<in> set ALLOWED_EXTENSIONS \<and>
         contentType_of (fileExtension_of name) declared = mime"
proof -
  let ?x = "toLowerCase (after_last CHR ''.'' name)"
  have "(?x = ''pdf'' \<and> mime = ''application/pdf'') \<or>
        (?x = ''docx'' \<and>
           mime = ''application/vnd.openxmlformats-officedocument.wordprocessingml.document'') \<or>
        (?x = ''xlsx'' \<and>
           mime = ''application/vnd.openxmlformats-officedocument.spreadsheetml.sheet'') \<or>
        (?x = ''txt'' \<and> mime = ''text/plain'') \<or>
        (?x = ''jpg'' \<and> mime = ''image/jpeg'') \<or>
        (?x = ''jpeg'' \<and> mime = ''image/jpeg'') \<or>
        (?x = ''png'' \<and> mime = ''image/png'')"
    using assms unfolding canonical_mime_def by simp
  then show ?thesis
    by (elim disjE conjE)
      (simp_all only: fileExtension_of_after_last contentType_of_values ALLOWED_EXTENSIONS_def,
       simp_all)
qed
lemma upload_rejected:
  assumes "extractFileFromForm e ev = Some (Inr x)"
    and "fileExtension_of (fileName x) \<notin> set ALLOWED_EXTENSIONS"
  shows "uploadFile e ev hdrs b = Some (invalid_file_type hdrs, b)"
  using assms by (simp add: uploadFile_def)

lemma upload_stored:
  assumes "extractFileFromForm e ev = Some (Inr x)"
    and "fileExtension_of (fileName x) \<in> set ALLOWED_EXTENSIONS"
    and "s3_fault e = None"
  shows "uploadFile e ev hdrs b
         = Some (uploaded hdrs (key_of (date_now e) (fileName x)) x,
                 AList.update (key_of (date_now e) (fileName x))
                   \<lparr>obj_Body = fileData x,
                    obj_ContentType =
                      Some (contentType_of (fileExtension_of (fileName x)) (fileType x)),
                    obj_Metadata =
                      Some [(s3_metadata_key e ''documentValueCode'',
                               stored_value (documentValueCode x)),
                            (s3_metadata_key e ''documentValueTypeCode'',
                               stored_value (documentValueTypeCode x))],
                    obj_LastModified = s3_time e\<rparr> b)"
  using assms
  by (simp add: uploadFile_def s3_PutObject_def Let_def or_default_def stored_value_def)

lemma upload_store_fault:
  assumes "extractFileFromForm e ev = Some (Inr x)"
    and "fileExtension_of (fileName x) \<in> set ALLOWED_EXTENSIONS"
    and "s3_fault e = Some err"
  shows "uploadFile e ev hdrs b = Some (upload_failed hdrs err, b)"
  using assms by (simp add: uploadFile_def s3_PutObject_def Let_def)

subsection \<open>The example inputs, decoded\<close>

lemma extract_setup_exe:
  "extractFileFromForm (example_env setup_exe) upload_event
   = Some (Inr \<lparr>fileData = [77, 90], fileName = ''setup.EXE'', fileType = ''application/pdf'',
               documentValueCode = [], documentValueTypeCode = []\<rparr>)"
  by (simp add: extractFileFromForm_def contentType_header_def upload_event_def js_or_def
      example_env_def setup_exe_def init_state_def settle_def)

lemma extract_report_pdf:
  "extractFileFromForm (example_env report_pdf) upload_event = Some (Inr report_extracted)"
  by (simp add: extractFileFromForm_def contentType_header_def upload_event_def js_or_def
      example_env_def report_pdf_def init_state_def settle_def report_extracted_def)

lemma extract_notes_txt:
  "extractFileFromForm (example_env notes_txt) upload_event = Some (Inr notes_extracted)"
  by (simp add: extractFileFromForm_def contentType_header_def upload_event_def js_or_def
      example_env_def notes_txt_def init_state_def settle_def notes_extracted_def)

lemma extract_dotless:
  "extractFileFromForm (example_env (dotless name)) upload_event
   = Some (Inr \<lparr>fileData = [1], fileName = name, fileType = ''application/octet-stream'',
               documentValueCode = [], documentValueTypeCode = []\<rparr>)"
  by (simp add: extractFileFromForm_def contentType_header_def upload_event_def js_or_def
      example_env_def dotless_def init_state_def settle_def)

lemma example_env_sel:
  "s3_fault (example_env evs) = None"
  "date_now (example_env evs) = 1700000000123"
  "s3_time (example_env evs) = 1700000000500"
  "s3_metadata_key (example_env evs) ''documentValueCode'' = ''documentvaluecode''"
  "s3_metadata_key (example_env evs) ''documentValueTypeCode'' = ''documentvaluetypecode''"
  by (simp_all add: example_env_def toLowerCase_def lower_char_def)

subsection \<open>The download flow and the outcomes of an upload\<close>

lemma download_binary:
  assumes "query_param ev ''key'' = Some key" and "key \<noteq> []" and "s3_fault e = None"
    and "map_of b key = Some obj"
    and "or_default (obj_ContentType obj) ''application/octet-stream'' \<noteq> ''text/plain''"
  shows "downloadFile e ev hdrs b
         = binary_download hdrs (pop (split_on CHR ''/'' key))
             (or_default (obj_ContentType obj) ''application/octet-stream'') (obj_Body obj)
             (case obj_Metadata obj of None \<Rightarrow> [] | Some m \<Rightarrow> m)"
  using assms by (simp add: downloadFile_def s3_GetObject_def Let_def)

lemma download_text:
  assumes "query_param ev ''key'' = Some key" and "key \<noteq> []" and "s3_fault e = None"
    and "map_of b key = Some obj"
    and "or_default (obj_ContentType obj) ''application/octet-stream'' = ''text/plain''"
  shows "downloadFile e ev hdrs b
         = text_download hdrs (pop (split_on CHR ''/'' key)) ''text/plain'' (obj_Body obj)
             (case obj_Metadata obj of None \<Rightarrow> [] | Some m \<Rightarrow> m)"
  using assms by (simp add: downloadFile_def s3_GetObject_def Let_def)

lemma binary_download_headers:
  "map_of (res_headers (binary_download hdrs name ct buf m)) ''X-Document-Value-Code''
     = Some (or_default (map_of m ''documentvaluecode'') ''NA'')"
  "map_of (res_headers (binary_download hdrs name ct buf m)) ''X-Document-Value-Type-Code''
     = Some (or_default (map_of m ''documentvaluetypecode'') ''NA'')"
  by (simp_all add: binary_download_def update_conv')

lemma upload_cases:
  assumes "uploadFile e ev hdrs b = Some (r, b')"
  shows "(b' = b \<and> statusCode r \<noteq> 200) \<or>
         (\<exists>x obj. extractFileFromForm e ev = Some (Inr x) \<and>
                   fileExtension_of (fileName x) \<in> set ALLOWED_EXTENSIONS \<and>
                   s3_fault e = None \<and>
                   r = uploaded hdrs (key_of (date_now e) (fileName x)) x \<and>
                   b' = AList.update (key_of (date_now e) (fileName x)) obj b)"
proof (cases "extractFileFromForm e ev")
  case None
  then show ?thesis using assms by (simp add: uploadFile_def)
next
  case (Some res)
  show ?thesis
  proof (cases res)
    case (Inl err)
    then show ?thesis using assms Some by (auto simp add: uploadFile_def upload_failed_def)
  next
    case (Inr x)
    show ?thesis
    proof (cases "fileExtension_of (fileName x) \<in> set ALLOWED_EXTENSIONS")
      case False
      from upload_rejected [of e ev x hdrs b] Some Inr False assms
      show ?thesis by (auto simp add: invalid_file_type_def)
    next
      case True
      show ?thesis
      proof (cases "s3_fault e")
        case None
        from upload_stored [of e ev x hdrs b] Some Inr True None assms
        show ?thesis by auto
      next
        case (Some err)
        from upload_store_fault [of e ev x err hdrs b] \<open>extractFileFromForm e ev = Some res\<close>
          Inr True Some assms
        show ?thesis by (auto simp add: upload_failed_def)
      qed
    qed
  qed
qed

lemma contentType_text_iff:
  assumes "fileExtension_of name \<in> set ALLOWED_EXTENSIONS"
  shows "contentType_of (fileExtension_of name) declared \<noteq> [] \<and>
         (contentType_of (fileExtension_of name) declared = ''text/plain''
            \<longleftrightarrow> toLowerCase (after_last CHR ''.'' name) = ''txt'')"
proof -
  let ?x = "toLowerCase (after_last CHR ''.'' name)"
  have "?x = ''docx'' \<or> ?x = ''pdf'' \<or> ?x = ''jpg'' \<or> ?x = ''png'' \<or> ?x = ''jpeg'' \<or>
        ?x = ''txt'' \<or> ?x = ''xlsx''"
    using assms unfolding extension_allowed_iff supported_types_def by simp
  then show ?thesis
    by (elim disjE)
      (simp_all only: fileExtension_of_after_last contentType_of_values, simp_all)
qed

subsection \<open>The example uploads, carried out\<close>

lemma upload_report_pdf:
  "uploadFile (example_env report_pdf) upload_event getCorsHeaders []
   = Some (uploaded getCorsHeaders ''documents/1700000000123-report.PDF'' report_extracted,
           report_bucket)"
proof -
  have a: "fileExtension_of ''report.PDF'' = ''.pdf''"
    by (simp add: fileExtension_of_after_last after_last_def toLowerCase_def lower_char_def)
  have k: "key_of 1700000000123 ''report.PDF'' = ''documents/1700000000123-report.PDF''"
    by (simp add: key_of_def string_of_nat.simps)
  have "fileExtension_of (fileName report_extracted) \<in> set ALLOWED_EXTENSIONS"
    by (simp add: report_extracted_def a ALLOWED_EXTENSIONS_def)
  from upload_stored [OF extract_report_pdf this example_env_sel(1), of getCorsHeaders "[]"]
  show ?thesis
    by (simp add: example_env_sel)
      (simp add: report_extracted_def report_bucket_def a k contentType_of_values
        stored_value_def)
qed

lemma upload_notes_txt:
  "uploadFile (example_env notes_txt) upload_event getCorsHeaders []
   = Some (uploaded getCorsHeaders ''documents/1700000000123-notes.txt'' notes_extracted,
           notes_bucket)"
proof -
  have a: "fileExtension_of ''notes.txt'' = ''.txt''"
    by (simp add: fileExtension_of_after_last after_last_def toLowerCase_def lower_char_def)
  have k: "key_of 1700000000123 ''notes.txt'' = ''documents/1700000000123-notes.txt''"
    by (simp add: key_of_def string_of_nat.simps)
  have "fileExtension_of (fileName notes_extracted) \<in> set ALLOWED_EXTENSIONS"
    by (simp add: notes_extracted_def a ALLOWED_EXTENSIONS_def)
  from upload_stored [OF extract_notes_txt this example_env_sel(1), of getCorsHeaders "[]"]
  show ?thesis
    by (simp add: example_env_sel)
      (simp add: notes_extracted_def notes_bucket_def a k contentType_of_values
        stored_value_def)
qed

lemma list_report_bucket:
  "listDocuments (example_env evs) getCorsHeaders report_bucket
   = Inr \<lparr>statusCode = 200, res_headers = getCorsHeaders,
          res_body = Json (JObject [(''documents'', JArray
            [JObject [(''key'', JString ''documents/1700000000123-report.PDF''),
                      (''fileName'', JString ''1700000000123-report.PDF''),
                      (''size'', JNumber 4),
                      (''lastModified'', JDate 1700000000500)]])]),
          res_isBase64Encoded = False\<rparr>"
  by (simp add: listDocuments_def s3_ListObjectsV2_def example_env_sel document_entry_def
      pop_def report_bucket_def)

section \<open>The multipart decoder\<close>

text \<open>
  Claim C2, as amended. When the content-type header (read under the names
  \<open>content-type\<close> and \<open>Content-Type\<close>) is missing or does not contain
  \<open>multipart/form-data\<close>, the decode fails with the error "Not a multipart/form-data
  request" (with the runtime's \<open>TypeError\<close> when the envelope has no headers object
  at all), and the upload flow answers it like every other failure of its \<open>try\<close>
  block: with status 500 and an unchanged bucket.
\<close>

theorem not_multipart_fails:
  assumes "\<not> declares_multipart ev"
  shows "(headers ev \<noteq> None \<longrightarrow>
            extractFileFromForm e ev
              = Some (Inl (JsError ''Error'' ''Not a multipart/form-data request'')) \<and>
            uploadFile e ev hdrs b
              = Some (upload_failed hdrs
                        (JsError ''Error'' ''Not a multipart/form-data request''), b)) \<and>
         (headers ev = None \<longrightarrow>
            extractFileFromForm e ev = Some (Inl (null_read e)) \<and>
            uploadFile e ev hdrs b = Some (upload_failed hdrs (null_read e), b)) \<and>
         statusCode (upload_failed hdrs err) = 500"
proof (intro conjI impI)
  assume "headers ev \<noteq> None"
  then obtain h where h: "headers ev = Some h" by auto
  then show ex: "extractFileFromForm e ev
              = Some (Inl (JsError ''Error'' ''Not a multipart/form-data request''))"
    using assms
    by (cases "contentType_header ev") (simp_all add: extractFileFromForm_def declares_multipart_def)
  then show "uploadFile e ev hdrs b
              = Some (upload_failed hdrs
                        (JsError ''Error'' ''Not a multipart/form-data request''), b)"
    by (simp add: uploadFile_def)
next
  assume "headers ev = None"
  then show ex: "extractFileFromForm e ev = Some (Inl (null_read e))"
    by (simp add: extractFileFromForm_def)
  then show "uploadFile e ev hdrs b = Some (upload_failed hdrs (null_read e), b)"
    by (simp add: uploadFile_def)
next
  show "statusCode (upload_failed hdrs err) = 500"
    by (simp add: upload_failed_def)
qed

text \<open>
  The theorem at a request that declares \<open>application/json\<close>, and at one whose
  envelope has no headers object.
\<close>

theorem not_multipart_fails_witness:
  "\<not> declares_multipart json_event \<and>
   uploadFile (example_env []) json_event getCorsHeaders []
     = Some (upload_failed getCorsHeaders (JsError ''Error'' ''Not a multipart/form-data request''), []) \<and>
   \<not> declares_multipart bare_upload_event \<and>
   uploadFile (example_env []) bare_upload_event getCorsHeaders []
     = Some (upload_failed getCorsHeaders (null_read (example_env [])), []) \<and>
   statusCode (upload_failed getCorsHeaders (null_read (example_env []))) = 500"
proof -
  have h: "\<not> declares_multipart json_event"
    by (simp add: declares_multipart_def contentType_header_def json_event_def js_or_def)
  have h': "\<not> declares_multipart bare_upload_event"
    by (simp add: declares_multipart_def contentType_header_def bare_upload_event_def)
  have p: "headers json_event \<noteq> None" by (simp add: json_event_def)
  have n: "headers bare_upload_event = None" by (simp add: bare_upload_event_def)
  show ?thesis
    using h h' p n
      not_multipart_fails [OF h, of "example_env []" getCorsHeaders "[]"]
      not_multipart_fails [OF h', of "example_env []" getCorsHeaders "[]"
        "null_read (example_env [])"]
    by simp
qed

text \<open>
  The claim as it was stated promises status 400. A request without any content-type
  header gets 500.
\<close>

theorem missing_content_type_is_500:
  "\<not> declares_multipart bare_event \<and>
   map_option (statusCode \<circ> fst) (uploadFile (example_env []) bare_event getCorsHeaders [])
     = Some 500"
  by (simp add: declares_multipart_def contentType_header_def bare_event_def js_or_def
      uploadFile_def extractFileFromForm_def upload_failed_def)

text \<open>
  Claim C3, as amended. The decoder keeps the last file part: every file part overwrites
  the filename, the declared type and the bytes of the one before it, so when the parser
  finishes, the decoded result carries those of the file part that came last. (Text
  fields may follow it; nothing has settled the promise before.)
\<close>

theorem last_file_part_wins:
  assumes "contentType_header ev = Some ct" and "includes_str ct ''multipart/form-data''"
    and "busboy e ct (decodedBody e ev)
           = earlier @ File_part fieldname filename mimetype chunks # flds @ Finish # rest"
    and "\<forall>p \<in> set earlier. \<not> settles p"
    and "\<forall>p \<in> set flds. is_field p"
  shows "\<exists>x. extractFileFromForm e ev = Some (Inr x) \<and>
             fileData x = concat chunks \<and> fileName x = filename \<and> fileType x = mimetype"
proof -
  let ?s1 = "foldl on_event init_state earlier"
  let ?s2 = "on_event ?s1 (File_part fieldname filename mimetype chunks)"
  let ?s3 = "foldl on_event ?s2 flds"
  have p1: "promise ?s1 = None"
    using pending_keep [OF assms(4), of init_state] by (simp add: init_state_def)
  have s3: "cur_fileData ?s3 = Some (concat chunks)" "cur_fileName ?s3 = filename"
    "cur_fileType ?s3 = mimetype" "promise ?s3 = None"
    using fields_keep [OF assms(5), of ?s2] p1 by simp_all
  define x where "x = \<lparr>fileData = concat chunks, fileName = filename, fileType = mimetype,
                       documentValueCode = fld_documentValueCode ?s3,
                       documentValueTypeCode = fld_documentValueTypeCode ?s3\<rparr>"
  have "promise (on_event ?s3 Finish) = Some (Inr x)"
    using s3 by (simp add: settle_def x_def)
  then have "promise (foldl on_event (on_event ?s3 Finish) rest) = Some (Inr x)"
    by (rule promise_foldl_Some)
  then have "promise (foldl on_event init_state
               (earlier @ File_part fieldname filename mimetype chunks # flds @ Finish # rest))
             = Some (Inr x)"
    by simp
  then have "extractFileFromForm e ev = Some (Inr x)"
    using assms(3) by (simp add: extract_with_content_type [OF assms(1,2)])
  moreover have "fileData x = concat chunks \<and> fileName x = filename \<and> fileType x = mimetype"
    by (simp add: x_def)
  ultimately show ?thesis by blast
qed

text \<open>The theorem at a body with two file parts.\<close>

theorem last_file_part_wins_witness:
  "\<exists>x. extractFileFromForm (example_env two_files) upload_event = Some (Inr x) \<and>
       fileData x = concat [[4]] \<and> fileName x = ''second.txt'' \<and> fileType x = ''text/plain''"
proof -
  let ?e = "example_env two_files"
  have 1: "contentType_header upload_event = Some ''multipart/form-data; boundary=xyz''"
    by (simp add: contentType_header_def upload_event_def js_or_def)
  have 2: "includes_str ''multipart/form-data; boundary=xyz'' ''multipart/form-data''"
    by simp
  have 3: "busboy ?e ''multipart/form-data; boundary=xyz'' (decodedBody ?e upload_event)
           = [File_part ''file'' ''first.pdf'' ''application/pdf'' [[1, 2], [3]]]
             @ File_part ''file'' ''second.txt'' ''text/plain'' [[4]] # [] @ Finish # []"
    by (simp add: example_env_def two_files_def)
  have 4: "\<forall>p \<in> set [File_part ''file'' ''first.pdf'' ''application/pdf'' [[1, 2], [3 :: byte]]].
             \<not> settles p"
    by simp
  have 5: "\<forall>p \<in> set ([] :: bb_event list). is_field p"
    by simp
  show ?thesis by (rule last_file_part_wins [OF 1 2 3 4 5])
qed

text \<open>
  The claim as it was stated keeps the first file part. On a body with the file parts
  \<open>first.pdf\<close> and \<open>second.txt\<close> the decoded file is \<open>second.txt\<close> with its bytes
  and its declared type.
\<close>

theorem first_file_part_replaced:
  "map_option (map_sum id fileName) (extractFileFromForm (example_env two_files) upload_event)
     = Some (Inr ''second.txt'') \<and>
   map_option (map_sum id fileType) (extractFileFromForm (example_env two_files) upload_event)
     = Some (Inr ''text/plain'') \<and>
   map_option (map_sum id fileData) (extractFileFromForm (example_env two_files) upload_event)
     = Some (Inr [4])"
  by (simp add: extractFileFromForm_def contentType_header_def upload_event_def js_or_def
      example_env_def two_files_def init_state_def settle_def)

text \<open>
  Claim C6. When the parser finishes and has delivered no file part (text fields only),
  the decode fails with "No file found in form data", and the upload flow answers with
  status 500 and leaves the bucket as it was.
\<close>

theorem no_file_part_fails:
  assumes "contentType_header ev = Some ct" and "includes_str ct ''multipart/form-data''"
    and "busboy e ct (decodedBody e ev) = flds @ Finish # rest"
    and "\<forall>p \<in> set flds. is_field p"
  shows "extractFileFromForm e ev = Some (Inl (JsError ''Error'' ''No file found in form data'')) \<and>
         uploadFile e ev hdrs b
           = Some (upload_failed hdrs (JsError ''Error'' ''No file found in form data''), b) \<and>
         statusCode (upload_failed hdrs (JsError ''Error'' ''No file found in form data'')) = 500"
proof -
  let ?st = "foldl on_event init_state flds"
  have "cur_fileData ?st = None" and "promise ?st = None"
    using fields_keep [OF assms(4), of init_state] by (simp_all add: init_state_def)
  then have "promise (on_event ?st Finish)
               = Some (Inl (JsError ''Error'' ''No file found in form data''))"
    by (simp add: settle_def)
  then have "promise (foldl on_event init_state (flds @ Finish # rest))
               = Some (Inl (JsError ''Error'' ''No file found in form data''))"
    by (simp add: promise_foldl_Some)
  then have ex: "extractFileFromForm e ev
                   = Some (Inl (JsError ''Error'' ''No file found in form data''))"
    using assms(3) by (simp add: extract_with_content_type [OF assms(1,2)])
  then show ?thesis by (simp add: uploadFile_def upload_failed_def)
qed

text \<open>The theorem at a body with one text field and no file.\<close>

theorem no_file_part_fails_witness:
  "uploadFile (example_env [Field_part ''documentValueCode'' ''INV001'', Finish]) upload_event
       getCorsHeaders []
     = Some (upload_failed getCorsHeaders (JsError ''Error'' ''No file found in form data''), [])"
proof -
  let ?e = "example_env [Field_part ''documentValueCode'' ''INV001'', Finish]"
  have 1: "contentType_header upload_event = Some ''multipart/form-data; boundary=xyz''"
    by (simp add: contentType_header_def upload_event_def js_or_def)
  have 2: "includes_str ''multipart/form-data; boundary=xyz'' ''multipart/form-data''"
    by simp
  have 3: "busboy ?e ''multipart/form-data; boundary=xyz'' (decodedBody ?e upload_event)
           = [Field_part ''documentValueCode'' ''INV001''] @ Finish # []"
    by (simp add: example_env_def)
  have 4: "\<forall>p \<in> set [Field_part ''documentValueCode'' ''INV001'']. is_field p"
    by simp
  show ?thesis using no_file_part_fails [OF 1 2 3 4, of getCorsHeaders "[]"] by simp
qed

section \<open>The upload flow\<close>

text \<open>
  Claim C4. When the extension of the extracted filename (the substring after its last
  dot, compared in lower case) is not one of the seven supported types, the upload flow
  answers with status 400 and the bucket is the one it started with: no put is made.
\<close>

theorem unsupported_extension_rejected:
  assumes "extractFileFromForm e ev = Some (Inr x)"
    and "toLowerCase (after_last CHR ''.'' (fileName x)) \<notin> set supported_types"
  shows "uploadFile e ev hdrs b = Some (invalid_file_type hdrs, b) \<and>
         statusCode (invalid_file_type hdrs) = 400"
  using upload_rejected [OF assms(1)] assms(2)
  by (simp add: extension_allowed_iff invalid_file_type_def)

text \<open>The theorem at \<open>setup.EXE\<close>, declared as a PDF by the client.\<close>

theorem unsupported_extension_rejected_witness:
  "toLowerCase (after_last CHR ''.'' ''setup.EXE'') = ''exe'' \<and>
   uploadFile (example_env setup_exe) upload_event getCorsHeaders []
     = Some (invalid_file_type getCorsHeaders, []) \<and>
   statusCode (invalid_file_type getCorsHeaders) = 400"
proof -
  have l: "toLowerCase (after_last CHR ''.'' ''setup.EXE'') = ''exe''"
    by (simp add: after_last_def toLowerCase_def lower_char_def)
  then have "toLowerCase (after_last CHR ''.''
               (fileName \<lparr>fileData = [77, 90], fileName = ''setup.EXE'',
                          fileType = ''application/pdf'',
                          documentValueCode = [], documentValueTypeCode = []\<rparr>))
             \<notin> set supported_types"
    by (simp add: supported_types_def)
  from unsupported_extension_rejected [OF extract_setup_exe this, of getCorsHeaders "[]"] l
  show ?thesis by simp
qed

text \<open>
  Claim C5. For a filename whose extension, in lower case, is in the table of canonical
  types, an upload with a working store keeps the object under the new key with the
  table's MIME type as its content type, whatever type the client declared (the declared
  type \<open>fileType x\<close> is arbitrary here). The resolution is a function of the
  lower-cased extension alone.
\<close>

theorem canonical_content_type_stored:
  assumes "extractFileFromForm e ev = Some (Inr x)"
    and "(toLowerCase (after_last CHR ''.'' (fileName x)), mime) \<in> set canonical_mime"
    and "s3_fault e = None"
  shows "\<exists>b'. uploadFile e ev hdrs b
                = Some (uploaded hdrs (key_of (date_now e) (fileName x)) x, b') \<and>
              map_option obj_ContentType (map_of b' (key_of (date_now e) (fileName x)))
                = Some (Some mime)"
proof -
  have c: "fileExtension_of (fileName x) \<in> set ALLOWED_EXTENSIONS"
    "contentType_of (fileExtension_of (fileName x)) (fileType x) = mime"
    using contentType_canonical [OF assms(2)] by simp_all
  show ?thesis
    using upload_stored [OF assms(1) c(1) assms(3), of hdrs b] c(2)
    by (simp add: update_conv')
qed

text \<open>The theorem at \<open>report.PDF\<close>, declared as \<open>application/octet-stream\<close>.\<close>

theorem canonical_content_type_stored_witness:
  "fileType report_extracted = ''application/octet-stream'' \<and>
   (\<exists>b'. uploadFile (example_env report_pdf) upload_event getCorsHeaders []
           = Some (uploaded getCorsHeaders (key_of 1700000000123 ''report.PDF'')
                     report_extracted, b') \<and>
         map_option obj_ContentType (map_of b' (key_of 1700000000123 ''report.PDF''))
           = Some (Some ''application/pdf''))"
proof -
  have m: "(toLowerCase (after_last CHR ''.'' (fileName report_extracted)),
            ''application/pdf'') \<in> set canonical_mime"
    by (simp add: report_extracted_def after_last_def toLowerCase_def lower_char_def
        canonical_mime_def)
  show ?thesis
    using canonical_content_type_stored [OF extract_report_pdf m example_env_sel(1),
        of getCorsHeaders "[]"]
    by (simp add: example_env_sel report_extracted_def)
qed

text \<open>
  Claim C10. For a filename without a dot, the checked extension is a dot followed by
  the whole filename in lower case. When that is in the allow-list the upload goes on to
  the store (and succeeds with 200 when the store does); when it is not, the upload is
  rejected with 400 and nothing is written.
\<close>

theorem dotless_name_is_extension:
  assumes "extractFileFromForm e ev = Some (Inr x)"
    and "CHR ''.'' \<notin> set (fileName x)"
  shows "fileExtension_of (fileName x) = ''.'' @ toLowerCase (fileName x) \<and>
         (if ''.'' @ toLowerCase (fileName x) \<in> set ALLOWED_EXTENSIONS
          then \<exists>r b'. uploadFile e ev hdrs b = Some (r, b') \<and> statusCode r \<noteq> 400 \<and>
                 (s3_fault e = None \<longrightarrow> statusCode r = 200)
          else uploadFile e ev hdrs b = Some (invalid_file_type hdrs, b) \<and>
               statusCode (invalid_file_type hdrs) = 400)"
proof -
  have ext: "fileExtension_of (fileName x) = ''.'' @ toLowerCase (fileName x)"
    using assms(2) by (simp add: fileExtension_of_after_last after_last_absent)
  show ?thesis
  proof (cases "fileExtension_of (fileName x) \<in> set ALLOWED_EXTENSIONS")
    case True
    show ?thesis
    proof (cases "s3_fault e")
      case None
      show ?thesis
        using upload_stored [OF assms(1) True None, of hdrs b] True ext None
        by (simp add: uploaded_def)
    next
      case (Some err)
      show ?thesis
        using upload_store_fault [OF assms(1) True Some, of hdrs b] True ext Some
        by (simp add: upload_failed_def)
    qed
  next
    case False
    then show ?thesis
      using upload_rejected [OF assms(1) False, of hdrs b] ext
      by (simp add: invalid_file_type_def)
  qed
qed


text \<open>The theorem at the filenames \<open>txt\<close> (accepted) and \<open>report\<close> (rejected).\<close>

theorem dotless_name_is_extension_witness:
  "(\<exists>r b'. uploadFile (example_env (dotless ''txt'')) upload_event getCorsHeaders []
             = Some (r, b') \<and> statusCode r = 200) \<and>
   uploadFile (example_env (dotless ''report'')) upload_event getCorsHeaders []
     = Some (invalid_file_type getCorsHeaders, []) \<and>
   statusCode (invalid_file_type getCorsHeaders) = 400"
proof -
  have a: "CHR ''.'' \<notin> set (fileName \<lparr>fileData = [1 :: byte], fileName = ''txt'',
             fileType = ''application/octet-stream'',
             documentValueCode = [], documentValueTypeCode = []\<rparr>)"
    by simp
  have b: "CHR ''.'' \<notin> set (fileName \<lparr>fileData = [1 :: byte], fileName = ''report'',
             fileType = ''application/octet-stream'',
             documentValueCode = [], documentValueTypeCode = []\<rparr>)"
    by simp
  show ?thesis
    using dotless_name_is_extension [OF extract_dotless a, of getCorsHeaders "[]"]
      dotless_name_is_extension [OF extract_dotless b, of getCorsHeaders "[]"]
    by (simp add: example_env_sel ALLOWED_EXTENSIONS_def toLowerCase_def lower_char_def) blast
qed

section \<open>The action router\<close>




section \<open>Keys and the listing\<close>

text \<open>
  Claim C8. An upload either leaves the bucket as it was or puts one object under the
  key \<open>documents/<timestamp>-<filename>\<close>, built from the clock reading and the
  extracted filename; so every key it creates lies under \<open>documents/\<close>. Every entry
  of a listing carries as \<open>fileName\<close> the substring of its key after the last slash.
\<close>

theorem keys_and_listing:
  "(uploadFile e ev hdrs b = Some (r, b') \<longrightarrow>
      b' = b \<or>
      (\<exists>x obj. extractFileFromForm e ev = Some (Inr x) \<and>
                b' = AList.update
                       (''documents/'' @ string_of_nat (date_now e) @ ''-'' @ fileName x) obj b)) \<and>
   (listDocuments e2 hdrs2 b2 = Inr r' \<longrightarrow>
      (\<exists>docs. res_body r' = Json (JObject [(''documents'', JArray docs)]) \<and>
              (\<forall>d \<in> set docs. \<exists>key sz lm.
                  d = JObject [(''key'', JString key),
                               (''fileName'', JString (after_last CHR ''/'' key)),
                               (''size'', JNumber sz),
                               (''lastModified'', JDate lm)])))"
proof (intro conjI impI)
  assume "uploadFile e ev hdrs b = Some (r, b')"
  from upload_cases [OF this]
  show "b' = b \<or>
      (\<exists>x obj. extractFileFromForm e ev = Some (Inr x) \<and>
                b' = AList.update
                       (''documents/'' @ string_of_nat (date_now e) @ ''-'' @ fileName x) obj b)"
    unfolding key_of_def by blast
next
  assume l: "listDocuments e2 hdrs2 b2 = Inr r'"
  then obtain contents where c: "s3_ListObjectsV2 e2 ''documents/'' b2 = Inr contents"
    by (cases "s3_ListObjectsV2 e2 ''documents/'' b2") (simp_all add: listDocuments_def)
  let ?docs = "case contents of None \<Rightarrow> [] | Some items \<Rightarrow> map document_entry items"
  have body: "res_body r' = Json (JObject [(''documents'', JArray ?docs)])"
    using l c by (auto simp add: listDocuments_def)
  have "\<forall>d \<in> set ?docs. \<exists>key sz lm.
          d = JObject [(''key'', JString key),
                       (''fileName'', JString (after_last CHR ''/'' key)),
                       (''size'', JNumber sz),
                       (''lastModified'', JDate lm)]"
    by (cases contents) (auto simp add: document_entry_def pop_split_on)
  with body show "\<exists>docs. res_body r' = Json (JObject [(''documents'', JArray docs)]) \<and>
              (\<forall>d \<in> set docs. \<exists>key sz lm.
                  d = JObject [(''key'', JString key),
                               (''fileName'', JString (after_last CHR ''/'' key)),
                               (''size'', JNumber sz),
                               (''lastModified'', JDate lm)])"
    by blast
qed

text \<open>The theorem at the upload of \<open>report.PDF\<close> and the listing of the bucket it leaves.\<close>

theorem keys_and_listing_witness:
  "uploadFile (example_env report_pdf) upload_event getCorsHeaders []
     = Some (uploaded getCorsHeaders ''documents/1700000000123-report.PDF'' report_extracted,
             report_bucket) \<and>
   report_bucket \<noteq> [] \<and>
   (\<exists>x obj. extractFileFromForm (example_env report_pdf) upload_event = Some (Inr x) \<and>
             report_bucket
               = AList.update (''documents/'' @ string_of_nat 1700000000123 @ ''-'' @ fileName x)
                   obj []) \<and>
   (\<exists>docs. listDocuments (example_env []) getCorsHeaders report_bucket
             = Inr \<lparr>statusCode = 200, res_headers = getCorsHeaders,
                    res_body = Json (JObject [(''documents'', JArray docs)]),
                    res_isBase64Encoded = False\<rparr> \<and>
           docs \<noteq> [] \<and>
           (\<forall>d \<in> set docs. \<exists>key sz lm.
               d = JObject [(''key'', JString key),
                            (''fileName'', JString (after_last CHR ''/'' key)),
                            (''size'', JNumber sz),
                            (''lastModified'', JDate lm)]))"
proof -
  have ne: "report_bucket \<noteq> []"
    by (simp add: report_bucket_def)
  note up = keys_and_listing [of "example_env report_pdf" upload_event getCorsHeaders "[]"
      "uploaded getCorsHeaders ''documents/1700000000123-report.PDF'' report_extracted"
      report_bucket "example_env []" getCorsHeaders report_bucket,
      THEN conjunct1, rule_format, OF upload_report_pdf]
  note ls = keys_and_listing [of "example_env report_pdf" upload_event getCorsHeaders "[]"
      "uploaded getCorsHeaders ''documents/1700000000123-report.PDF'' report_extracted"
      report_bucket "example_env []" getCorsHeaders report_bucket,
      THEN conjunct2, rule_format, OF list_report_bucket]
  from up ne
  have 1: "\<exists>x obj. extractFileFromForm (example_env report_pdf) upload_event = Some (Inr x) \<and>
             report_bucket
               = AList.update (''documents/'' @ string_of_nat 1700000000123 @ ''-'' @ fileName x)
                   obj []"
    by (simp add: example_env_sel)
  from ls
  have 2: "\<exists>docs. listDocuments (example_env []) getCorsHeaders report_bucket
             = Inr \<lparr>statusCode = 200, res_headers = getCorsHeaders,
                    res_body = Json (JObject [(''documents'', JArray docs)]),
                    res_isBase64Encoded = False\<rparr> \<and>
           docs \<noteq> [] \<and>
           (\<forall>d \<in> set docs. \<exists>key sz lm.
               d = JObject [(''key'', JString key),
                            (''fileName'', JString (after_last CHR ''/'' key)),
                            (''size'', JNumber sz),
                            (''lastModified'', JDate lm)])"
    by (simp add: list_report_bucket)
  from upload_report_pdf ne 1 2 show ?thesis by blast
qed

section \<open>The download flow\<close>

text \<open>
  Claim C9. On the attachment path (content type other than \<open>text/plain\<close>) the headers
  \<open>X-Document-Value-Code\<close> and \<open>X-Document-Value-Type-Code\<close> are read from the
  retrieved metadata under the names \<open>documentvaluecode\<close> and
  \<open>documentvaluetypecode\<close>, with "NA" for an empty value; when the metadata has no
  entry under these lower-case names, whatever it has under other spellings, the headers
  are "NA".
\<close>

theorem binary_headers_from_lowercase_keys:
  assumes "query_param ev ''key'' = Some key" and "key \<noteq> []" and "s3_fault e = None"
    and "map_of b key = Some obj"
    and "or_default (obj_ContentType obj) ''application/octet-stream'' \<noteq> ''text/plain''"
    and "m = (case obj_Metadata obj of None \<Rightarrow> [] | Some m \<Rightarrow> m)"
    and "r = downloadFile e ev hdrs b"
  shows "map_of (res_headers r) ''X-Document-Value-Code''
           = Some (case map_of m ''documentvaluecode'' of
                     None \<Rightarrow> ''NA'' | Some v \<Rightarrow> stored_value v) \<and>
         map_of (res_headers r) ''X-Document-Value-Type-Code''
           = Some (case map_of m ''documentvaluetypecode'' of
                     None \<Rightarrow> ''NA'' | Some v \<Rightarrow> stored_value v) \<and>
         (map_of m ''documentvaluecode'' = None \<longrightarrow>
            map_of (res_headers r) ''X-Document-Value-Code'' = Some ''NA'') \<and>
         (map_of m ''documentvaluetypecode'' = None \<longrightarrow>
            map_of (res_headers r) ''X-Document-Value-Type-Code'' = Some ''NA'')"
  using download_binary [OF assms(1-5), of hdrs] assms(6,7)
  by (simp add: binary_download_headers or_default_def stored_value_def split: option.splits)

text \<open>
  The theorem at an object whose metadata names are spelled \<open>documentValueCode\<close> and
  \<open>documentValueTypeCode\<close>.
\<close>

theorem binary_headers_from_lowercase_keys_witness:
  "map_of (res_headers (downloadFile (example_env []) (download_event ''documents/1-a.pdf'')
                          getCorsHeaders [(''documents/1-a.pdf'', camel_object)]))
       ''X-Document-Value-Code'' = Some ''NA'' \<and>
   map_of (res_headers (downloadFile (example_env []) (download_event ''documents/1-a.pdf'')
                          getCorsHeaders [(''documents/1-a.pdf'', camel_object)]))
       ''X-Document-Value-Type-Code'' = Some ''NA'' \<and>
   obj_Metadata camel_object
     = Some [(''documentValueCode'', ''INV001''), (''documentValueTypeCode'', ''MEMO'')]"
proof -
  have 1: "query_param (download_event ''documents/1-a.pdf'') ''key'' = Some ''documents/1-a.pdf''"
    by (simp add: query_param_def download_event_def)
  have 2: "''documents/1-a.pdf'' \<noteq> []" by simp
  have 3: "s3_fault (example_env []) = None" by (simp add: example_env_def)
  have 4: "map_of [(''documents/1-a.pdf'', camel_object)] ''documents/1-a.pdf'' = Some camel_object"
    by simp
  have 5: "or_default (obj_ContentType camel_object) ''application/octet-stream'' \<noteq> ''text/plain''"
    by (simp add: camel_object_def or_default_def)
  have 6: "[(''documentValueCode'', ''INV001''), (''documentValueTypeCode'', ''MEMO'')]
           = (case obj_Metadata camel_object of None \<Rightarrow> [] | Some m \<Rightarrow> m)"
    by (simp add: camel_object_def)
  show ?thesis
    using binary_headers_from_lowercase_keys [OF 1 2 3 4 5 6 refl, of getCorsHeaders]
    by (simp add: camel_object_def)
qed

section \<open>The round trip\<close>

text \<open>
  Claim C1. After a successful upload, a download by the key of the upload response,
  from a store that works and that returns the two metadata names in lower case (as the
  download flow reads them), succeeds with status 200 and yields the uploaded bytes and
  metadata values, with "NA" exactly for a value that was empty at upload (a field that
  was omitted is the empty string): for a \<open>.txt\<close> file in the JSON envelope, under
  \<open>fileContent\<close> and \<open>metadata\<close>; for every other file as the base64 body and the two
  \<open>X-Document-Value\<close> headers.
\<close>

theorem upload_download_roundtrip:
  assumes "extractFileFromForm e ev = Some (Inr x)"
    and "uploadFile e ev hdrs b = Some (r, b')"
    and "statusCode r = 200"
    and "res_body r = Json (JObject fs)"
    and "map_of fs ''key'' = Some (JString k)"
    and "query_param ev' ''key'' = Some k"
    and "s3_fault e' = None"
    and "s3_metadata_key e ''documentValueCode'' = ''documentvaluecode''"
    and "s3_metadata_key e ''documentValueTypeCode'' = ''documentvaluetypecode''"
    and "d = downloadFile e' ev' hdrs' b'"
  shows "statusCode d = 200 \<and>
         (if toLowerCase (after_last CHR ''.'' (fileName x)) = ''txt''
          then \<exists>ds. res_body d = Json (JObject ds) \<and>
                 map_of ds ''fileContent'' = Some (JBase64 (fileData x)) \<and>
                 map_of ds ''metadata''
                   = Some (JObject
                       [(''documentvaluecode'', JString (stored_value (documentValueCode x))),
                        (''documentvaluetypecode'',
                           JString (stored_value (documentValueTypeCode x)))])
          else res_body d = Base64 (fileData x) \<and>
               map_of (res_headers d) ''X-Document-Value-Code''
                 = Some (stored_value (documentValueCode x)) \<and>
               map_of (res_headers d) ''X-Document-Value-Type-Code''
                 = Some (stored_value (documentValueTypeCode x)))"
proof -
  let ?key = "key_of (date_now e) (fileName x)"
  let ?ct = "contentType_of (fileExtension_of (fileName x)) (fileType x)"
  let ?meta = "[(''documentvaluecode'', stored_value (documentValueCode x)),
                (''documentvaluetypecode'', stored_value (documentValueTypeCode x))]"
  let ?obj = "\<lparr>obj_Body = fileData x, obj_ContentType = Some ?ct,
               obj_Metadata = Some ?meta, obj_LastModified = s3_time e\<rparr>"
  from upload_cases [OF assms(2)] assms(1,3)
  have allowed: "fileExtension_of (fileName x) \<in> set ALLOWED_EXTENSIONS"
    and ok: "s3_fault e = None"
    by auto
  from upload_stored [OF assms(1) allowed ok, of hdrs b] assms(2,8,9)
  have r: "r = uploaded hdrs ?key x" and b': "b' = AList.update ?key ?obj b"
    by simp_all
  have "fs = [(''message'', JString ''File uploaded successfully''),
              (''key'', JString ?key),
              (''fileName'', JString (fileName x)),
              (''documentValueCode'', JString (documentValueCode x)),
              (''documentValueTypeCode'', JString (documentValueTypeCode x))]"
    using assms(4) r by (simp add: uploaded_def)
  then have k: "k = ?key"
    using assms(5) by simp
  have k_ne: "k \<noteq> []"
    by (simp add: k key_of_def)
  have got: "map_of b' k = Some ?obj"
    by (simp add: b' k update_conv')
  note ct = contentType_text_iff [OF allowed, of "fileType x"]
  have od: "or_default (obj_ContentType ?obj) ''application/octet-stream'' = ?ct"
    using ct by (simp add: or_default_def)
  show ?thesis
  proof (cases "toLowerCase (after_last CHR ''.'' (fileName x)) = ''txt''")
    case True
    then have "or_default (obj_ContentType ?obj) ''application/octet-stream'' = ''text/plain''"
      using ct od by simp
    from download_text [OF assms(6) k_ne assms(7) got this, of hdrs'] True assms(10)
    show ?thesis by (simp add: text_download_def)
  next
    case False
    then have "or_default (obj_ContentType ?obj) ''application/octet-stream'' \<noteq> ''text/plain''"
      using ct od by simp
    from download_binary [OF assms(6) k_ne assms(7) got this, of hdrs'] False assms(10)
    show ?thesis
      by (simp add: binary_download_headers or_default_def stored_value_def)
        (simp add: binary_download_def)
  qed
qed

text \<open>
  The theorem at the upload of \<open>report.PDF\<close> with \<open>documentValueCode\<close> only, and of
  \<open>notes.txt\<close> with \<open>documentValueTypeCode\<close> only.
\<close>

theorem upload_download_roundtrip_witness:
  "uploadFile (example_env report_pdf) upload_event getCorsHeaders []
     = Some (uploaded getCorsHeaders ''documents/1700000000123-report.PDF'' report_extracted,
             report_bucket) \<and>
   statusCode (downloadFile (example_env [])
                 (download_event ''documents/1700000000123-report.PDF'') [] report_bucket) = 200 \<and>
   res_body (downloadFile (example_env [])
               (download_event ''documents/1700000000123-report.PDF'') [] report_bucket)
     = Base64 [37, 80, 68, 70] \<and>
   map_of (res_headers (downloadFile (example_env [])
                          (download_event ''documents/1700000000123-report.PDF'') []
                          report_bucket)) ''X-Document-Value-Code'' = Some ''INV001'' \<and>
   map_of (res_headers (downloadFile (example_env [])
                          (download_event ''documents/1700000000123-report.PDF'') []
                          report_bucket)) ''X-Document-Value-Type-Code'' = Some ''NA'' \<and>
   uploadFile (example_env notes_txt) upload_event getCorsHeaders []
     = Some (uploaded getCorsHeaders ''documents/1700000000123-notes.txt'' notes_extracted,
             notes_bucket) \<and>
   (\<exists>ds. res_body (downloadFile (example_env [])
                     (download_event ''documents/1700000000123-notes.txt'') [] notes_bucket)
           = Json (JObject ds) \<and>
         map_of ds ''fileContent'' = Some (JBase64 [104, 105]) \<and>
         map_of ds ''metadata''
           = Some (JObject [(''documentvaluecode'', JString ''NA''),
                            (''documentvaluetypecode'', JString ''MEMO'')]))"
proof -
  have st: "statusCode (uploaded getCorsHeaders k x) = 200" for k x
    by (simp add: uploaded_def)
  have bd: "res_body (uploaded getCorsHeaders k x)
            = Json (JObject [(''message'', JString ''File uploaded successfully''),
                             (''key'', JString k),
                             (''fileName'', JString (fileName x)),
                             (''documentValueCode'', JString (documentValueCode x)),
                             (''documentValueTypeCode'', JString (documentValueTypeCode x))])"
    for k x
    by (simp add: uploaded_def)
  have ky: "map_of [(''message'', JString ''File uploaded successfully''),
                    (''key'', JString k),
                    (''fileName'', JString (fileName x)),
                    (''documentValueCode'', JString (documentValueCode x)),
                    (''documentValueTypeCode'', JString (documentValueTypeCode x))] ''key''
            = Some (JString k)" for k and x :: extracted
    by simp
  have qp: "query_param (download_event k) ''key'' = Some k" for k
    by (simp add: query_param_def download_event_def)
  note rt_pdf = upload_download_roundtrip [OF extract_report_pdf upload_report_pdf st bd ky qp
      example_env_sel(1) example_env_sel(4) example_env_sel(5) refl, of "[]" "[]"]
  note rt_txt = upload_download_roundtrip [OF extract_notes_txt upload_notes_txt st bd ky qp
      example_env_sel(1) example_env_sel(4) example_env_sel(5) refl, of "[]" "[]"]
  have x1: "toLowerCase (after_last CHR ''.'' (fileName report_extracted)) \<noteq> ''txt''"
    by (simp add: report_extracted_def after_last_def toLowerCase_def lower_char_def)
  have x2: "toLowerCase (after_last CHR ''.'' (fileName notes_extracted)) = ''txt''"
    by (simp add: notes_extracted_def after_last_def toLowerCase_def lower_char_def)
  from rt_pdf x1
  have p: "statusCode (downloadFile (example_env [])
                 (download_event ''documents/1700000000123-report.PDF'') [] report_bucket) = 200 \<and>
   res_body (downloadFile (example_env [])
               (download_event ''documents/1700000000123-report.PDF'') [] report_bucket)
     = Base64 [37, 80, 68, 70] \<and>
   map_of (res_headers (downloadFile (example_env [])
                          (download_event ''documents/1700000000123-report.PDF'') []
                          report_bucket)) ''X-Document-Value-Code'' = Some ''INV001'' \<and>
   map_of (res_headers (downloadFile (example_env [])
                          (download_event ''documents/1700000000123-report.PDF'') []
                          report_bucket)) ''X-Document-Value-Type-Code'' = Some ''NA''"
    by (simp add: report_extracted_def stored_value_def)
  from rt_txt x2
  have t: "\<exists>ds. res_body (downloadFile (example_env [])
                     (download_event ''documents/1700000000123-notes.txt'') [] notes_bucket)
           = Json (JObject ds) \<and>
         map_of ds ''fileContent'' = Some (JBase64 [104, 105]) \<and>
         map_of ds ''metadata''
           = Some (JObject [(''documentvaluecode'', JString ''NA''),
                            (''documentvaluetypecode'', JString ''MEMO'')])"
    by (simp add: notes_extracted_def stored_value_def)
  from upload_report_pdf upload_notes_txt p t show ?thesis by blast
qed

end
